theory Spec2Isabelle
  imports Main "HOL-Library.Word"
begin

section \<open>The player's data\<close>

text \<open>
  The sketch \<^verbatim>\<open>pcmaudio.ino\<close> keeps all of its state in globals. They become one
  record, every function of the sketch a function on that record. Three things the
  sketch uses are not part of it and are parameters of the model, collected in
  \<open>env\<close>: the clock frequency macro \<^verbatim>\<open>F_CPU\<close>, the SD card (whether it
  initialises, which bytes a file name opens, the names the root directory lists), and
  the bytes that the uninitialised header local of \<^verbatim>\<open>startPlayback\<close> holds before
  the read.

  Integers have the widths of the sketch: the sample counter, the sample rate, file
  sizes and positions are 32-bit words, the compare register \<^verbatim>\<open>OCR1A\<close> is a 16-bit
  word, a sample is a byte. A division by zero and a read outside the two blocks are
  undefined in the language of the sketch; in the model they end the run with an
  \<open>error\<close>. The three results of an operation are \<open>None\<close> (it never returns),
  \<open>Some (Inl err)\<close> and \<open>Some (Inr s)\<close>.

  The liquid crystal display is write-only and no function reads it back; its contents are
  not modelled. The two routines that print a time divide by \<^verbatim>\<open>sampleRate\<close>, and
  that division is kept. The once-per-second blink of the paused display depends on the
  millisecond clock and writes the display only; it is left out. Strings are the texts
  up to the terminating zero byte; a zero byte on the serial line is outside the model,
  and file names are compared as they are written.
\<close>

type_synonym byte = "8 word"
type_synonym u16 = "16 word"
type_synonym u32 = "32 word"

datatype PlayState = STOPPED | PLAYING | PAUSED

datatype blk = Buf1 | Buf2

datatype error = DivisionByZero | OutOfBounds

record File =
  is_open :: bool
  content :: "byte list"
  pos :: nat

record Dir =
  d_open :: bool
  cursor :: nat

record env =
  F_CPU :: u32
  card_ok :: bool
  card :: "(string \<times> byte list) list"
  root :: "string list"
  uninit :: "byte list"

record state =
  sample :: u32
  buf1 :: "byte list"
  buf2 :: "byte list"
  frontBuf :: blk
  backBuf :: blk
  readBuf :: "blk \<times> nat"
  bufferSwapped :: bool
  filename :: string
  command :: string
  playState :: PlayState
  sampleRate :: u32
  soundfile :: File
  rootDir :: Dir
  OCR1A :: u16
  pwm :: "byte list"
  serial_in :: string
  serial_out :: "string list"

text \<open>
  \<open>readBuf\<close> is a pointer into one of the two blocks: the block and the offset from
  its start. \<open>pwm\<close> is the sequence of values written to the duty register
  \<^verbatim>\<open>OCR2B\<close> (\<^verbatim>\<open>speakerPin\<close> is 3), newest first; the register holds the head.
  \<open>serial_in\<close> is the receive buffer of the serial port, \<open>serial_out\<close> the lines
  sent, oldest first; every line is completed by one \<^verbatim>\<open>println\<close>.
\<close>

definition cache_size :: nat where
  "cache_size = 128"

definition init_state :: state where
  "init_state =
     \<lparr>sample = 0, buf1 = replicate cache_size 0, buf2 = replicate cache_size 0,
      frontBuf = Buf1, backBuf = Buf2, readBuf = (Buf1, 0), bufferSwapped = False,
      filename = ''inv.wav'', command = '''', playState = STOPPED, sampleRate = 16000,
      soundfile = \<lparr>is_open = False, content = [], pos = 0\<rparr>,
      rootDir = \<lparr>d_open = False, cursor = 0\<rparr>, OCR1A = 0, pwm = [],
      serial_in = '''', serial_out = []\<rparr>"

section \<open>The storage reader\<close>

text \<open>
  Modelled from the spec: the SD library's \<^verbatim>\<open>File\<close> and directory are not in the
  repository. The spec describes a sequential byte-stream reader over a named file with
  \<^verbatim>\<open>read(buffer, count)\<close> and size and position queries, and a directory that is
  scanned entry by entry and wraps around. A read returns the bytes from the position up
  to the count or the end of the file, whichever comes first, and moves the position
  past them. A closed file has size 0, has no byte available and reads nothing; its
  position is all ones and \<^verbatim>\<open>available\<close> is the number of unread bytes, capped at
  \<open>0x7FFF\<close>, as in the library the sketch includes. Opening a name that is not on
  the card gives a closed file.
\<close>

definition File_closed :: File where
  "File_closed = \<lparr>is_open = False, content = [], pos = 0\<rparr>"

definition File_size :: "File \<Rightarrow> u32" where
  "File_size f = (if is_open f then of_nat (length (content f)) else 0)"

definition File_position :: "File \<Rightarrow> u32" where
  "File_position f = (if is_open f then of_nat (pos f) else - 1)"

definition File_available :: "File \<Rightarrow> u32" where
  "File_available f =
     (if is_open f
      then (let n = File_size f - File_position f in if n > 0x7FFF then 0x7FFF else n)
      else 0)"

definition File_read :: "File \<Rightarrow> nat \<Rightarrow> byte list \<times> File" where
  "File_read f n =
     (if is_open f
      then (let bs = take n (drop (pos f) (content f)) in (bs, f\<lparr>pos := pos f + length bs\<rparr>))
      else ([], f))"

definition SD_open :: "env \<Rightarrow> string \<Rightarrow> File" where
  "SD_open e name =
     (case map_of (card e) name of
        None \<Rightarrow> File_closed
      | Some bs \<Rightarrow> \<lparr>is_open = True, content = bs, pos = 0\<rparr>)"

definition rewindDirectory :: "Dir \<Rightarrow> Dir" where
  "rewindDirectory d = (if d_open d then d\<lparr>cursor := 0\<rparr> else d)"

definition endsWith :: "string \<Rightarrow> string \<Rightarrow> bool" where
  "endsWith s suffix =
     (length suffix \<le> length s \<and> drop (length s - length suffix) s = suffix)"

section \<open>Memory of the two blocks\<close>

definition block :: "state \<Rightarrow> blk \<Rightarrow> byte list" where
  "block s b = (case b of Buf1 \<Rightarrow> buf1 s | Buf2 \<Rightarrow> buf2 s)"

definition overwrite :: "byte list \<Rightarrow> byte list \<Rightarrow> byte list" where
  "overwrite bs old = bs @ drop (length bs) old"

definition store :: "blk \<Rightarrow> byte list \<Rightarrow> state \<Rightarrow> state" where
  "store b bs s =
     (case b of
        Buf1 \<Rightarrow> s\<lparr>buf1 := overwrite bs (buf1 s)\<rparr>
      | Buf2 \<Rightarrow> s\<lparr>buf2 := overwrite bs (buf2 s)\<rparr>)"

definition deref :: "state \<Rightarrow> blk \<times> nat \<Rightarrow> byte option" where
  "deref s p =
     (if snd p < cache_size \<and> snd p < length (block s (fst p))
      then Some (block s (fst p) ! snd p) else None)"

section \<open>Playback control functions\<close>

definition check_rate :: "state \<Rightarrow> error + state" where
  "check_rate s = (if sampleRate s = 0 then Inl DivisionByZero else Inr s)"

definition printTimePlaying :: "state \<Rightarrow> error + state" where
  "printTimePlaying s = check_rate s"

definition printTimeTotal :: "state \<Rightarrow> error + state" where
  "printTimeTotal s = check_rate s"

definition stopPlayback :: "state \<Rightarrow> state" where
  "stopPlayback s =
     (let s1 = s\<lparr>playState := STOPPED\<rparr>;
          s2 = s1\<lparr>soundfile := File_closed\<rparr>;
          s3 = s2\<lparr>buf1 := replicate cache_size 0\<rparr>;
          s4 = s3\<lparr>buf2 := replicate cache_size 0\<rparr>
      in s4\<lparr>readBuf := (frontBuf s4, 0)\<rparr>)"

definition le32 :: "byte list \<Rightarrow> u32" where
  "le32 bs = word_of_nat (unat (bs ! 0) + 256 * unat (bs ! 1)
                          + 65536 * unat (bs ! 2) + 16777216 * unat (bs ! 3))"

definition header_sampleRate :: "byte list \<Rightarrow> u32" where
  "header_sampleRate hdr = le32 (take 4 (drop 24 hdr))"

definition startPlayback :: "env \<Rightarrow> state \<Rightarrow> error + state" where
  "startPlayback e s =
     (if File_available (soundfile s) = 0
      then
        (let f0 = SD_open e (filename s);
             (hb, f1) = File_read f0 38;
             header = overwrite hb (uninit e);
             s1 = s\<lparr>soundfile := f1, sampleRate := header_sampleRate header\<rparr>
         in if sampleRate s1 = 0 then Inl DivisionByZero
            else
              (let s2 = s1\<lparr>OCR1A := ucast (F_CPU e div sampleRate s1)\<rparr>;
                   (bs, f2) = File_read (soundfile s2) cache_size;
                   s3 = store (frontBuf s2) bs (s2\<lparr>soundfile := f2\<rparr>);
                   s4 = s3\<lparr>bufferSwapped := True\<rparr>;
                   s5 = s4\<lparr>sample := 0\<rparr>
               in Inr (s5\<lparr>playState := PLAYING\<rparr>)))
      else Inr (s\<lparr>playState := PLAYING\<rparr>))"

definition pausePlayback :: "state \<Rightarrow> state" where
  "pausePlayback s = s\<lparr>playState := PAUSED\<rparr>"

text \<open>
  The directory scan of \<^verbatim>\<open>next\<close>: the \<^verbatim>\<open>do ... while\<close> loop that asks the root
  directory for its next entry, rewinds when there is none and stops at the first entry
  whose name ends in \<^verbatim>\<open>.WAV\<close>. The loop has no bound, so the scan is a partial
  function: \<open>None\<close> is the loop that never ends. A directory that was never opened
  yields no entry.
\<close>

partial_function (option) scan :: "string list \<Rightarrow> Dir \<Rightarrow> (string \<times> Dir) option" where
  "scan es d =
     (if d_open d \<and> cursor d < length es
      then (if endsWith (es ! cursor d) ''.WAV''
            then Some (es ! cursor d, d\<lparr>cursor := cursor d + 1\<rparr>)
            else scan es (d\<lparr>cursor := cursor d + 1\<rparr>))
      else scan es (rewindDirectory d))"

declare scan.simps [code]

definition after_scan :: "env \<Rightarrow> bool \<Rightarrow> string \<times> Dir \<Rightarrow> state \<Rightarrow> error + state" where
  "after_scan e wasPlaying found s =
     (let s1 = s\<lparr>rootDir := snd found\<rparr>;
          s2 = s1\<lparr>filename := take 11 (fst found)\<rparr>
      in case printTimeTotal s2 of
           Inl err \<Rightarrow> Inl err
         | Inr s3 \<Rightarrow>
             (case printTimePlaying s3 of
                Inl err \<Rightarrow> Inl err
              | Inr s4 \<Rightarrow> if wasPlaying then startPlayback e s4 else Inr s4))"

definition next_file :: "env \<Rightarrow> state \<Rightarrow> (error + state) option" where
  "next_file e s =
     (let wasPlaying = (playState s = PLAYING);
          s1 = stopPlayback s
      in case scan (root e) (rootDir s1) of
           None \<Rightarrow> None
         | Some found \<Rightarrow> Some (after_scan e wasPlaying found s1))"

definition swapBuffers :: "state \<Rightarrow> state" where
  "swapBuffers s =
     (let temp = frontBuf s;
          s1 = s\<lparr>frontBuf := backBuf s\<rparr>;
          s2 = s1\<lparr>backBuf := temp\<rparr>;
          s3 = s2\<lparr>readBuf := (frontBuf s2, 0)\<rparr>
      in s3\<lparr>bufferSwapped := True\<rparr>)"

section \<open>Sample interrupt vector\<close>

definition emit_sample :: "state \<Rightarrow> error + state" where
  "emit_sample s =
     (let s1 = (if readBuf s = (frontBuf s, cache_size) then swapBuffers s else s)
      in case deref s1 (readBuf s1) of
           None \<Rightarrow> Inl OutOfBounds
         | Some v \<Rightarrow>
             Inr (s1\<lparr>pwm := v # pwm s1,
                      readBuf := (fst (readBuf s1), snd (readBuf s1) + 1),
                      sample := sample s1 + 1\<rparr>))"

definition isr :: "env \<Rightarrow> state \<Rightarrow> (error + state) option" where
  "isr e s =
     (if playState s \<noteq> PLAYING then Some (Inr (s\<lparr>pwm := 0 # pwm s\<rparr>))
      else if sample s = File_size (soundfile s) then next_file e s
      else Some (emit_sample s))"

section \<open>Setup\<close>

function dec :: "nat \<Rightarrow> string" where
  "dec n = (if n < 10 then [char_of (48 + n)] else dec (n div 10) @ [char_of (48 + n mod 10)])"
  by pat_completeness auto
termination
  by (relation "measure id") auto

declare dec.simps [simp del]

definition println :: "string \<Rightarrow> state \<Rightarrow> state" where
  "println l s = s\<lparr>serial_out := serial_out s @ [l]\<rparr>"

definition setupPlayback :: "env \<Rightarrow> state \<Rightarrow> error + state" where
  "setupPlayback e s =
     (let s1 = s\<lparr>pwm := 0 # pwm s\<rparr>
      in if sampleRate s1 = 0 then Inl DivisionByZero
         else Inr (s1\<lparr>OCR1A := ucast (F_CPU e div sampleRate s1), sample := 0\<rparr>))"

definition setup_board :: "env \<Rightarrow> state \<Rightarrow> (error + state) option" where
  "setup_board e s =
     (if \<not> card_ok e
      then Some (Inr (println (dec (unat (F_CPU e)) @ ''Card failed, or not present'') s))
      else
        (let s1 = println (dec (unat (F_CPU e)) @ ''Card initialized'') s;
             s2 = s1\<lparr>rootDir := \<lparr>d_open = True, cursor = 0\<rparr>\<rparr>
         in case next_file e s2 of
              None \<Rightarrow> None
            | Some (Inl err) \<Rightarrow> Some (Inl err)
            | Some (Inr s3) \<Rightarrow> Some (setupPlayback e s3)))"

section \<open>Loop function\<close>

fun read_command :: "string \<Rightarrow> string \<Rightarrow> string \<times> bool \<times> string" where
  "read_command cmd [] = (cmd, False, [])"
| "read_command cmd (c # cs) =
     (if c = CHR 0x0D then (cmd, False, cs)
      else if c = CHR 0x0A then (cmd, True, cs)
      else read_command (cmd @ [c]) cs)"

definition char_at :: "string \<Rightarrow> nat \<Rightarrow> char" where
  "char_at str i = (if i < length str then str ! i else CHR 0x00)"

definition playState_number :: "PlayState \<Rightarrow> nat" where
  "playState_number p = (case p of STOPPED \<Rightarrow> 0 | PLAYING \<Rightarrow> 1 | PAUSED \<Rightarrow> 2)"

definition progress :: "state \<Rightarrow> error + u32" where
  "progress s =
     (if File_size (soundfile s) = 0 then Inl DivisionByZero
      else Inr (File_position (soundfile s) * 100 div File_size (soundfile s)))"

definition dispatch :: "env \<Rightarrow> state \<Rightarrow> (error + state) option" where
  "dispatch e s =
     (if command s = ''play'' then Some (startPlayback e (println ''Playing'' s))
      else if command s = ''pause'' then Some (Inr (pausePlayback (println ''Pausing'' s)))
      else if command s = ''stop'' then Some (Inr (stopPlayback (println ''Stopping'' s)))
      else if command s = ''filename'' then Some (Inr (println (filename s) s))
      else if command s = ''playstate''
        then Some (Inr (println (dec (playState_number (playState s))) s))
      else if command s = ''progress''
        then Some (case progress s of
                     Inl err \<Rightarrow> Inl err
                   | Inr v \<Rightarrow> Inr (println (dec (unat v)) s))
      else if char_at (command s) 0 = CHR ''s'' \<and> char_at (command s) 1 = CHR '' ''
        then Some (startPlayback e
                     (stopPlayback (s\<lparr>filename := take 11 (drop 2 (command s))\<rparr>)))
      else if command s = ''next''
        then (case next_file e s of
                None \<Rightarrow> None
              | Some (Inl err) \<Rightarrow> Some (Inl err)
              | Some (Inr s1) \<Rightarrow>
                  Some (Inr (println (''Playing next file: '' @ filename s1) s1)))
      else if command s = ''togglepp''
        then (if playState s = PLAYING then Some (Inr (pausePlayback s))
              else Some (startPlayback e s))
      else Some (Inr (println ''Unrecognized command'' s)))"

definition handle_command :: "env \<Rightarrow> state \<Rightarrow> (error + state) option" where
  "handle_command e s =
     (case dispatch e (println (''['' @ command s @ '']'') s) of
        None \<Rightarrow> None
      | Some (Inl err) \<Rightarrow> Some (Inl err)
      | Some (Inr s1) \<Rightarrow> Some (Inr (s1\<lparr>command := ''''\<rparr>)))"

definition refill :: "state \<Rightarrow> error + state" where
  "refill s =
     (if bufferSwapped s
      then (let (bs, f) = File_read (soundfile s) cache_size;
                s1 = store (backBuf s) bs (s\<lparr>soundfile := f\<rparr>)
            in printTimePlaying (s1\<lparr>bufferSwapped := False\<rparr>))
      else Inr s)"

definition poll_serial :: "env \<Rightarrow> state \<Rightarrow> (error + state) option" where
  "poll_serial e s =
     (if serial_in s \<noteq> []
      then (case read_command (command s) (serial_in s) of
              (cmd, complete, rest) \<Rightarrow>
                (let s1 = s\<lparr>command := cmd, serial_in := rest\<rparr>
                 in if complete then handle_command e s1 else Some (Inr s1)))
      else Some (Inr s))"

definition loop_pass :: "env \<Rightarrow> state \<Rightarrow> (error + state) option" where
  "loop_pass e s =
     (case refill s of
        Inl err \<Rightarrow> Some (Inl err)
      | Inr s1 \<Rightarrow> poll_serial e s1)"

section \<open>Runs of the player\<close>

text \<open>
  What happens to the board after \<^verbatim>\<open>setup\<close>: the sample clock fires, the background
  loop makes a pass, bytes arrive on the serial line. The interrupt handler runs with
  interrupts disabled and is one step; a pass of \<^verbatim>\<open>loop\<close> is taken as one step too.
\<close>

datatype event = Tick | Loop | Recv string

definition step :: "env \<Rightarrow> event \<Rightarrow> state \<Rightarrow> (error + state) option" where
  "step e ev s =
     (case ev of
        Tick \<Rightarrow> isr e s
      | Loop \<Rightarrow> loop_pass e s
      | Recv cs \<Rightarrow> Some (Inr (s\<lparr>serial_in := serial_in s @ cs\<rparr>)))"

fun run :: "env \<Rightarrow> event list \<Rightarrow> state \<Rightarrow> (error + state) option" where
  "run e [] s = Some (Inr s)"
| "run e (ev # evs) s =
     (case step e ev s of
        None \<Rightarrow> None
      | Some (Inl err) \<Rightarrow> Some (Inl err)
      | Some (Inr s1) \<Rightarrow> run e evs s1)"

inductive reachable :: "env \<Rightarrow> state \<Rightarrow> bool" for e :: env where
  boot: "setup_board e init_state = Some (Inr s) \<Longrightarrow> reachable e s"
| after: "reachable e s \<Longrightarrow> step e ev s = Some (Inr s1) \<Longrightarrow> reachable e s1"

section \<open>Properties of states and runs\<close>

text \<open>
  The drain cursor points into the front block, at most one past its last byte, and both
  blocks keep their 128 bytes.
\<close>

definition cursor_ok :: "state \<Rightarrow> bool" where
  "cursor_ok s = (fst (readBuf s) = frontBuf s \<and> snd (readBuf s) \<le> cache_size)"

definition blocks_ok :: "state \<Rightarrow> bool" where
  "blocks_ok s = (length (buf1 s) = cache_size \<and> length (buf2 s) = cache_size)"

definition silent :: "state \<Rightarrow> bool" where
  "silent s = (buf1 s = replicate cache_size 0 \<and> buf2 s = replicate cache_size 0)"

definition stopped_ok :: "state \<Rightarrow> bool" where
  "stopped_ok s = (playState s = STOPPED \<longrightarrow> \<not> is_open (soundfile s) \<and> silent s)"

text \<open>
  The rate that \<^verbatim>\<open>startPlayback\<close> reads from a file: bytes 24 to 27 of the first
  38, little-endian, over whatever the header local held before.
\<close>

definition declared_rate :: "env \<Rightarrow> byte list \<Rightarrow> u32" where
  "declared_rate e bs = header_sampleRate (overwrite (take 38 bs) (uninit e))"

definition clock_ok :: "env \<Rightarrow> state \<Rightarrow> bool" where
  "clock_ok e s =
     (sampleRate s \<noteq> 0 \<and>
      (is_open (soundfile s) \<longrightarrow>
         map_of (card e) (filename s) = Some (content (soundfile s)) \<and>
         sampleRate s = declared_rate e (content (soundfile s)) \<and>
         OCR1A s = ucast (F_CPU e div sampleRate s)))"

definition wf :: "env \<Rightarrow> state \<Rightarrow> bool" where
  "wf e s = (cursor_ok s \<and> blocks_ok s \<and> stopped_ok s \<and> clock_ok e s)"

text \<open>
  A run that never leaves \<open>STOPPED\<close>: every step returns and lands in a stopped state.
\<close>

inductive stopped_run :: "env \<Rightarrow> state \<Rightarrow> state \<Rightarrow> bool" for e :: env and s :: state where
  here: "stopped_run e s s"
| further: "stopped_run e s t \<Longrightarrow> step e ev t = Some (Inr u) \<Longrightarrow> playState u = STOPPED
            \<Longrightarrow> stopped_run e s u"





text \<open>
  A state in which a file of \<open>n\<close> bytes plays and \<open>k\<close> samples of it have been
  counted, with nothing waiting on the serial line.
\<close>

definition playing_at :: "nat \<Rightarrow> nat \<Rightarrow> state \<Rightarrow> bool" where
  "playing_at n k s =
     (playState s = PLAYING \<and> sample s = of_nat k \<and> k \<le> n \<and> is_open (soundfile s)
      \<and> length (content (soundfile s)) = n \<and> n < 2 ^ 32
      \<and> cursor_ok s \<and> blocks_ok s \<and> sampleRate s \<noteq> 0 \<and> serial_in s = [])"

text \<open>The value the duty register holds: the last one written, zero before the first.\<close>

definition duty :: "state \<Rightarrow> byte" where
  "duty s = (case pwm s of [] \<Rightarrow> 0 | v # _ \<Rightarrow> v)"

text \<open>The board from power-on: \<^verbatim>\<open>setup\<close>, then the events.\<close>

definition power_on :: "env \<Rightarrow> event list \<Rightarrow> (error + state) option" where
  "power_on e evs =
     (case setup_board e init_state of
        None \<Rightarrow> None
      | Some (Inl err) \<Rightarrow> Some (Inl err)
      | Some (Inr s) \<Rightarrow> run e evs s)"

definition observe :: "(state \<Rightarrow> 'a) \<Rightarrow> (error + state) option \<Rightarrow> 'a option" where
  "observe f r = (case r of Some (Inr s) \<Rightarrow> Some (f s) | _ \<Rightarrow> None)"

definition line :: "string \<Rightarrow> event" where
  "line cmd = Recv (cmd @ [CHR 0x0A])"

text \<open>The commands that the chain of comparisons in \<^verbatim>\<open>loop\<close> recognises.\<close>

definition switch_command :: "string \<Rightarrow> bool" where
  "switch_command cmd = (char_at cmd 0 = CHR ''s'' \<and> char_at cmd 1 = CHR '' '')"

definition recognized :: "string \<Rightarrow> bool" where
  "recognized cmd =
     (cmd = ''play'' \<or> cmd = ''pause'' \<or> cmd = ''stop'' \<or> cmd = ''filename''
      \<or> cmd = ''playstate'' \<or> cmd = ''progress'' \<or> switch_command cmd
      \<or> cmd = ''next'' \<or> cmd = ''togglepp'')"

definition stopped_silent :: "state \<Rightarrow> bool" where
  "stopped_silent s = (playState s = STOPPED \<and> \<not> is_open (soundfile s) \<and> silent s)"

text \<open>
  What \<^verbatim>\<open>startPlayback\<close> leaves when it opens the named file and the rate it
  reads is not zero.
\<close>

definition opened :: "env \<Rightarrow> state \<Rightarrow> state" where
  "opened e s =
     (let f1 = snd (File_read (SD_open e (filename s)) 38);
          r = File_read f1 cache_size
      in (store (frontBuf s) (fst r)
            (s\<lparr>soundfile := snd r,
               sampleRate := header_sampleRate
                  (overwrite (fst (File_read (SD_open e (filename s)) 38)) (uninit e)),
               OCR1A := ucast (F_CPU e div header_sampleRate
                  (overwrite (fst (File_read (SD_open e (filename s)) 38)) (uninit e)))\<rparr>))
          \<lparr>bufferSwapped := True, sample := 0, playState := PLAYING\<rparr>)"

section \<open>Example cards\<close>

text \<open>
  A canonical 46-byte wave file: the 44-byte header (8-bit mono PCM, 8000 Hz, that is
  \<open>0x1F40\<close> at offset 24) and two samples, \<open>0x80\<close> and \<open>0x22\<close>. Its bytes at
  offsets 38 and 39 are the letters \<open>t\<close> and \<open>a\<close> of the \<open>data\<close> tag. The same
  file declaring 100 Hz. A card holding the first file, a card holding the second, and
  a card with no \<^verbatim>\<open>.WAV\<close> entry.
\<close>

definition demo_wav :: "byte list" where
  "demo_wav =
     [0x52, 0x49, 0x46, 0x46, 38, 0, 0, 0, 0x57, 0x41, 0x56, 0x45,
      0x66, 0x6D, 0x74, 0x20, 16, 0, 0, 0, 1, 0, 1, 0,
      0x40, 0x1F, 0, 0, 0x40, 0x1F, 0, 0, 1, 0, 8, 0,
      0x64, 0x61, 0x74, 0x61, 2, 0, 0, 0, 0x80, 0x22]"

definition slow_wav :: "byte list" where
  "slow_wav =
     [0x52, 0x49, 0x46, 0x46, 38, 0, 0, 0, 0x57, 0x41, 0x56, 0x45,
      0x66, 0x6D, 0x74, 0x20, 16, 0, 0, 0, 1, 0, 1, 0,
      100, 0, 0, 0, 100, 0, 0, 0, 1, 0, 8, 0,
      0x64, 0x61, 0x74, 0x61, 2, 0, 0, 0, 0x80, 0x22]"

definition demo_card :: env where
  "demo_card =
     \<lparr>F_CPU = 16000000, card_ok = True, card = [(''A.WAV'', demo_wav)],
      root = [''A.WAV''], uninit = replicate 44 0\<rparr>"

definition slow_card :: env where
  "slow_card =
     \<lparr>F_CPU = 16000000, card_ok = True, card = [(''A.WAV'', slow_wav)],
      root = [''A.WAV''], uninit = replicate 44 0\<rparr>"

definition card_without_wav :: env where
  "card_without_wav =
     \<lparr>F_CPU = 16000000, card_ok = True, card = [(''README.TXT'', [])],
      root = [''README.TXT''], uninit = replicate 44 0\<rparr>"

text \<open>
  The state of the first card after \<^verbatim>\<open>setup\<close>, and its state after the command
  \<^verbatim>\<open>play\<close>: the whole file has been read, its last eight bytes are in the front block.
\<close>

definition boot_demo :: state where
  "boot_demo =
     \<lparr>sample = 0, buf1 = replicate cache_size 0, buf2 = replicate cache_size 0,
      frontBuf = Buf1, backBuf = Buf2, readBuf = (Buf1, 0), bufferSwapped = False,
      filename = ''A.WAV'', command = [], playState = STOPPED, sampleRate = 16000,
      soundfile = File_closed, rootDir = \<lparr>d_open = True, cursor = 1\<rparr>, OCR1A = 1000,
      pwm = [0], serial_in = [],
      serial_out = [dec 16000000 @ ''Card initialized'']\<rparr>"

definition playing_demo :: state where
  "playing_demo =
     \<lparr>sample = 0, buf1 = [0x74, 0x61, 2, 0, 0, 0, 0x80, 0x22] @ replicate 120 0,
      buf2 = replicate cache_size 0,
      frontBuf = Buf1, backBuf = Buf2, readBuf = (Buf1, 0), bufferSwapped = True,
      filename = ''A.WAV'', command = [], playState = PLAYING, sampleRate = 8000,
      soundfile = \<lparr>is_open = True, content = demo_wav, pos = 46\<rparr>,
      rootDir = \<lparr>d_open = True, cursor = 1\<rparr>, OCR1A = 2000,
      pwm = [0], serial_in = [],
      serial_out = [dec 16000000 @ ''Card initialized'', ''[play]'', ''Playing'']\<rparr>"

text \<open>
  A card whose file is longer than one block: the 44-byte header and 132 samples, all
  \<open>0x55\<close>, 176 bytes. Its state after \<^verbatim>\<open>play\<close>, a refill and 129 ticks: the whole
  file has been read, the blocks have swapped once and the cursor stands at offset 1 of
  the second block of the file.
\<close>

definition long_wav :: "byte list" where
  "long_wav =
     [0x52, 0x49, 0x46, 0x46, 168, 0, 0, 0, 0x57, 0x41, 0x56, 0x45,
      0x66, 0x6D, 0x74, 0x20, 16, 0, 0, 0, 1, 0, 1, 0,
      0x40, 0x1F, 0, 0, 0x40, 0x1F, 0, 0, 1, 0, 8, 0,
      0x64, 0x61, 0x74, 0x61, 132, 0, 0, 0] @ replicate 132 0x55"

definition long_card :: env where
  "long_card =
     \<lparr>F_CPU = 16000000, card_ok = True, card = [(''A.WAV'', long_wav)],
      root = [''A.WAV''], uninit = replicate 44 0\<rparr>"

definition long_mid :: state where
  "long_mid =
     \<lparr>sample = 129,
      buf1 = [0x74, 0x61, 132, 0, 0, 0] @ replicate 122 0x55,
      buf2 = replicate 10 0x55 @ replicate 118 0,
      frontBuf = Buf2, backBuf = Buf1, readBuf = (Buf2, 1), bufferSwapped = True,
      filename = ''A.WAV'', command = [], playState = PLAYING, sampleRate = 8000,
      soundfile = \<lparr>is_open = True, content = long_wav, pos = 176\<rparr>,
      rootDir = \<lparr>d_open = True, cursor = 1\<rparr>, OCR1A = 2000,
      pwm = replicate 123 0x55 @ [0, 0, 0, 132, 0x61, 0x74, 0], serial_in = [],
      serial_out = [dec 16000000 @ ''Card initialized'', ''[play]'', ''Playing'']\<rparr>"

section \<open>The directory scan\<close>

lemma scan_hit:
  "d_open d \<Longrightarrow> cursor d < length es \<Longrightarrow> endsWith (es ! cursor d) ''.WAV'' \<Longrightarrow>
   scan es d = Some (es ! cursor d, d\<lparr>cursor := cursor d + 1\<rparr>)"
  by (subst scan.simps) simp



lemma scan_Some_match:
  "scan es d = Some r \<Longrightarrow>
     d_open d \<and> fst r \<in> set es \<and> endsWith (fst r) ''.WAV''
     \<and> d_open (snd r) \<and> cursor (snd r) \<le> length es \<and> 0 < cursor (snd r)
     \<and> fst r = es ! (cursor (snd r) - 1)"
proof (induct es d r rule: scan.raw_induct[rotated, consumes 1, case_names unfold])
  case (unfold f es d r)
  show ?case
  proof (cases "d_open d \<and> cursor d < length es")
    case True
    note inr = this
    show ?thesis
    proof (cases "endsWith (es ! cursor d) ''.WAV''")
      case True
      with inr unfold(2) show ?thesis by auto
    next
      case False
      with inr unfold(2) have "f es (d\<lparr>cursor := cursor d + 1\<rparr>) = Some r" by simp
      from unfold(1)[OF this] inr show ?thesis by auto
    qed
  next
    case False
    with unfold(2) have "f es (rewindDirectory d) = Some r" by simp
    from unfold(1)[OF this] show ?thesis
      by (auto simp: rewindDirectory_def split: if_splits)
  qed
qed




section \<open>Invariants of every step\<close>

lemma wf_stopPlayback: "sampleRate s \<noteq> 0 \<Longrightarrow> wf e (stopPlayback s)"
  by (simp add: wf_def cursor_ok_def blocks_ok_def stopped_ok_def clock_ok_def silent_def
      stopPlayback_def File_closed_def Let_def)

lemma length_overwrite: "length bs \<le> length old \<Longrightarrow> length (overwrite bs old) = length old"
  by (simp add: overwrite_def)

lemma File_read_length: "length (fst (File_read f n)) \<le> n"
  by (simp add: File_read_def Let_def)

lemma File_read_frame:
  "is_open (snd (File_read f n)) = is_open f \<and> content (snd (File_read f n)) = content f"
  by (simp add: File_read_def Let_def)

lemma store_frame:
  "frontBuf (store b bs s) = frontBuf s" "backBuf (store b bs s) = backBuf s"
  "readBuf (store b bs s) = readBuf s" "playState (store b bs s) = playState s"
  "soundfile (store b bs s) = soundfile s" "sampleRate (store b bs s) = sampleRate s"
  "OCR1A (store b bs s) = OCR1A s" "filename (store b bs s) = filename s"
  "sample (store b bs s) = sample s" "pwm (store b bs s) = pwm s"
  "serial_in (store b bs s) = serial_in s" "serial_out (store b bs s) = serial_out s"
  "rootDir (store b bs s) = rootDir s" "command (store b bs s) = command s"
  "bufferSwapped (store b bs s) = bufferSwapped s"
  by (simp_all add: store_def split: blk.splits)

lemma blocks_ok_store:
  "blocks_ok s \<Longrightarrow> length bs \<le> cache_size \<Longrightarrow> blocks_ok (store b bs s)"
  by (cases b) (simp_all add: blocks_ok_def store_def length_overwrite)


lemma startPlayback_resume:
  "File_available (soundfile s) \<noteq> 0 \<Longrightarrow> startPlayback e s = Inr (s\<lparr>playState := PLAYING\<rparr>)"
  by (simp add: startPlayback_def)

lemma File_available_closed: "\<not> is_open f \<Longrightarrow> File_available f = 0"
  by (simp add: File_available_def)

lemma startPlayback_open:
  "File_available (soundfile s) = 0 \<Longrightarrow>
   startPlayback e s =
     (if header_sampleRate (overwrite (fst (File_read (SD_open e (filename s)) 38)) (uninit e)) = 0
      then Inl DivisionByZero else Inr (opened e s))"
  by (cases "frontBuf s")
     (simp_all add: startPlayback_def opened_def Let_def store_def split: prod.splits)

lemma wf_opened:
  assumes "wf e s"
      and "header_sampleRate (overwrite (fst (File_read (SD_open e (filename s)) 38)) (uninit e)) \<noteq> 0"
  shows "wf e (opened e s)"
proof -
  have c: "cursor_ok (opened e s)"
    using assms(1) by (simp add: wf_def cursor_ok_def opened_def Let_def store_frame)
  have b: "blocks_ok (opened e s)"
    using assms(1)
    by (simp add: wf_def opened_def Let_def blocks_ok_def store_def length_overwrite
        File_read_length split: blk.splits)
  have st: "stopped_ok (opened e s)"
    by (simp add: stopped_ok_def opened_def Let_def store_frame)
  have ck: "clock_ok e (opened e s)"
    using assms(2)
    by (auto simp: clock_ok_def opened_def Let_def store_frame File_read_frame SD_open_def
        File_closed_def declared_rate_def File_read_def split: option.splits)
  from c b st ck show ?thesis by (simp add: wf_def)
qed

lemma wf_playing: "wf e s \<Longrightarrow> wf e (s\<lparr>playState := PLAYING\<rparr>)"
  by (simp add: wf_def cursor_ok_def blocks_ok_def stopped_ok_def clock_ok_def)

lemma wf_startPlayback: "wf e s \<Longrightarrow> startPlayback e s = Inr t \<Longrightarrow> wf e t"
  by (cases "File_available (soundfile s) = 0")
     (auto simp: startPlayback_open startPlayback_resume wf_opened wf_playing split: if_splits)

lemma wf_pausePlayback: "wf e s \<Longrightarrow> wf e (pausePlayback s)"
  by (simp add: wf_def cursor_ok_def blocks_ok_def stopped_ok_def clock_ok_def pausePlayback_def)

lemma wf_println: "wf e (println l s) = wf e s"
  by (simp add: wf_def cursor_ok_def blocks_ok_def stopped_ok_def clock_ok_def println_def silent_def)

lemma wf_sampleRate: "wf e s \<Longrightarrow> sampleRate s \<noteq> 0"
  by (simp add: wf_def clock_ok_def)

lemma sampleRate_stopPlayback: "sampleRate (stopPlayback s) = sampleRate s"
  by (simp add: stopPlayback_def Let_def)

lemma wf_after_scan:
  assumes "sampleRate s \<noteq> 0" and "after_scan e w found (stopPlayback s) = Inr t"
  shows "wf e t"
proof -
  let ?s2 = "(stopPlayback s)\<lparr>rootDir := snd found, filename := take 11 (fst found)\<rparr>"
  have w2: "wf e ?s2"
    using assms(1)
    by (simp add: wf_def cursor_ok_def blocks_ok_def stopped_ok_def clock_ok_def silent_def
      stopPlayback_def File_closed_def Let_def)
  have "(if w then startPlayback e ?s2 else Inr ?s2) = Inr t"
    using assms
    by (simp add: after_scan_def Let_def printTimeTotal_def printTimePlaying_def check_rate_def
        sampleRate_stopPlayback)
  with w2 show ?thesis
    by (auto split: if_splits dest: wf_startPlayback)
qed

lemma wf_next_file: "wf e s \<Longrightarrow> next_file e s = Some (Inr t) \<Longrightarrow> wf e t"
  by (auto simp: next_file_def Let_def split: option.splits
      dest!: wf_sampleRate intro: wf_after_scan)

lemma wf_swapBuffers_emit:
  "wf e s \<Longrightarrow> emit_sample s = Inr t \<Longrightarrow> playState s = PLAYING \<Longrightarrow> wf e t"
  by (auto simp: emit_sample_def swapBuffers_def Let_def wf_def cursor_ok_def blocks_ok_def
      stopped_ok_def clock_ok_def deref_def split: option.splits if_splits)

lemma wf_isr: "wf e s \<Longrightarrow> isr e s = Some (Inr t) \<Longrightarrow> wf e t"
  apply (simp add: isr_def split: if_splits)
    apply (auto simp: wf_def cursor_ok_def blocks_ok_def stopped_ok_def clock_ok_def silent_def)[1]
   apply (erule (1) wf_next_file)
  apply (erule (2) wf_swapBuffers_emit)
  done

lemma wf_refill: "wf e s \<Longrightarrow> refill s = Inr t \<Longrightarrow> wf e t"
  apply (simp add: refill_def printTimePlaying_def check_rate_def Let_def
      split: if_splits prod.splits)
  apply (auto simp: wf_def cursor_ok_def store_frame blocks_ok_store stopped_ok_def clock_ok_def
      silent_def File_read_def Let_def store_def overwrite_def blocks_ok_def split: if_splits blk.splits)
  done



lemma dispatch_play:
  "command s = ''play'' \<Longrightarrow> dispatch e s = Some (startPlayback e (println ''Playing'' s))"
  by (simp add: dispatch_def)

lemma dispatch_pause:
  "command s = ''pause'' \<Longrightarrow> dispatch e s = Some (Inr (pausePlayback (println ''Pausing'' s)))"
  by (simp add: dispatch_def)

lemma dispatch_stop:
  "command s = ''stop'' \<Longrightarrow> dispatch e s = Some (Inr (stopPlayback (println ''Stopping'' s)))"
  by (simp add: dispatch_def)

lemma dispatch_filename:
  "command s = ''filename'' \<Longrightarrow> dispatch e s = Some (Inr (println (filename s) s))"
  by (simp add: dispatch_def)

lemma dispatch_playstate:
  "command s = ''playstate'' \<Longrightarrow>
   dispatch e s = Some (Inr (println (dec (playState_number (playState s))) s))"
  by (simp add: dispatch_def)

lemma dispatch_progress:
  "command s = ''progress'' \<Longrightarrow>
   dispatch e s = Some (case progress s of Inl err \<Rightarrow> Inl err
                        | Inr v \<Rightarrow> Inr (println (dec (unat v)) s))"
  by (simp add: dispatch_def)

lemma switch_command_not_word:
  "switch_command c \<Longrightarrow>
   c \<noteq> ''play'' \<and> c \<noteq> ''pause'' \<and> c \<noteq> ''stop'' \<and> c \<noteq> ''filename''
   \<and> c \<noteq> ''playstate'' \<and> c \<noteq> ''progress'' \<and> c \<noteq> ''next'' \<and> c \<noteq> ''togglepp''"
  by (auto simp: switch_command_def char_at_def)

lemma dispatch_switch:
  "switch_command (command s) \<Longrightarrow>
   dispatch e s = Some (startPlayback e
                         (stopPlayback (s\<lparr>filename := take 11 (drop 2 (command s))\<rparr>)))"
  using switch_command_not_word[of "command s"]
  by (simp add: dispatch_def switch_command_def)

lemma dispatch_next:
  "command s = ''next'' \<Longrightarrow>
   dispatch e s = (case next_file e s of None \<Rightarrow> None
                   | Some (Inl err) \<Rightarrow> Some (Inl err)
                   | Some (Inr s1) \<Rightarrow>
                       Some (Inr (println (''Playing next file: '' @ filename s1) s1)))"
  by (simp add: dispatch_def char_at_def)

lemma dispatch_togglepp:
  "command s = ''togglepp'' \<Longrightarrow>
   dispatch e s = (if playState s = PLAYING then Some (Inr (pausePlayback s))
                   else Some (startPlayback e s))"
  by (simp add: dispatch_def char_at_def)

lemma dispatch_unrecognized:
  "\<not> recognized (command s) \<Longrightarrow> dispatch e s = Some (Inr (println ''Unrecognized command'' s))"
  by (auto simp: dispatch_def recognized_def switch_command_def)

lemma command_cases [case_names play pause stop filename playstate progress switch nxt togglepp other]:
  assumes "c = ''play'' \<Longrightarrow> P" and "c = ''pause'' \<Longrightarrow> P" and "c = ''stop'' \<Longrightarrow> P"
    and "c = ''filename'' \<Longrightarrow> P" and "c = ''playstate'' \<Longrightarrow> P"
    and "c = ''progress'' \<Longrightarrow> P" and "switch_command c \<Longrightarrow> P" and "c = ''next'' \<Longrightarrow> P"
    and "c = ''togglepp'' \<Longrightarrow> P" and "\<not> recognized c \<Longrightarrow> P"
  shows P
proof (cases "recognized c")
  case False
  then show P by (rule assms(10))
next
  case True
  then have "c = ''play'' \<or> c = ''pause'' \<or> c = ''stop'' \<or> c = ''filename''
      \<or> c = ''playstate'' \<or> c = ''progress'' \<or> switch_command c
      \<or> c = ''next'' \<or> c = ''togglepp''"
    by (simp only: recognized_def)
  then show P
    by (elim disjE) (rule assms; assumption)+
qed

lemma wf_filename_stop:
  "wf e s \<Longrightarrow> wf e (stopPlayback (s\<lparr>filename := n\<rparr>))"
  by (simp add: wf_def cursor_ok_def blocks_ok_def stopped_ok_def clock_ok_def silent_def
      stopPlayback_def File_closed_def Let_def)

lemma wf_dispatch:
  assumes w: "wf e s" and d: "dispatch e s = Some (Inr t)"
  shows "wf e t"
proof (cases "command s" rule: command_cases)
  case play
  with d w show ?thesis
    by (auto simp: dispatch_play wf_println dest: wf_startPlayback[rotated])
next
  case pause
  with d w show ?thesis by (auto simp: dispatch_pause wf_println wf_pausePlayback)
next
  case stop
  with d w show ?thesis
    by (auto simp: dispatch_stop wf_println intro!: wf_stopPlayback dest: wf_sampleRate
        simp: println_def)
next
  case filename
  with d w show ?thesis by (auto simp: dispatch_filename wf_println)
next
  case playstate
  with d w show ?thesis by (auto simp: dispatch_playstate wf_println)
next
  case progress
  with d w show ?thesis by (auto simp: dispatch_progress wf_println split: sum.splits)
next
  case switch
  with d have "startPlayback e (stopPlayback (s\<lparr>filename := take 11 (drop 2 (command s))\<rparr>)) = Inr t"
    by (simp add: dispatch_switch)
  with wf_filename_stop[OF w] show ?thesis by (rule wf_startPlayback)
next
  case nxt
  with d w show ?thesis
    by (auto simp: dispatch_next wf_println split: option.splits sum.splits dest: wf_next_file)
next
  case togglepp
  with d w show ?thesis
    by (auto simp: dispatch_togglepp wf_pausePlayback split: if_splits dest: wf_startPlayback)
next
  case other
  with d w show ?thesis by (auto simp: dispatch_unrecognized wf_println)
qed

lemma wf_command: "wf e (s\<lparr>command := c\<rparr>) = wf e s"
  by (simp add: wf_def cursor_ok_def blocks_ok_def stopped_ok_def clock_ok_def silent_def)

lemma wf_serial_in: "wf e (s\<lparr>serial_in := c\<rparr>) = wf e s"
  by (simp add: wf_def cursor_ok_def blocks_ok_def stopped_ok_def clock_ok_def silent_def)

lemma wf_handle_command: "wf e s \<Longrightarrow> handle_command e s = Some (Inr t) \<Longrightarrow> wf e t"
  by (auto simp: handle_command_def wf_command wf_println
      split: option.splits sum.splits dest!: wf_dispatch[rotated])

lemma wf_poll_serial: "wf e s \<Longrightarrow> poll_serial e s = Some (Inr t) \<Longrightarrow> wf e t"
  by (auto simp: poll_serial_def Let_def wf_command wf_serial_in
      split: if_splits prod.splits dest!: wf_handle_command[rotated])

lemma wf_loop_pass: "wf e s \<Longrightarrow> loop_pass e s = Some (Inr t) \<Longrightarrow> wf e t"
  by (auto simp: loop_pass_def split: sum.splits dest: wf_refill wf_poll_serial)

lemma wf_step: "wf e s \<Longrightarrow> step e ev s = Some (Inr t) \<Longrightarrow> wf e t"
  by (cases ev) (auto simp: step_def wf_serial_in dest: wf_isr wf_loop_pass)

lemma wf_setupPlayback: "wf e s \<Longrightarrow> \<not> is_open (soundfile s) \<Longrightarrow> setupPlayback e s = Inr t \<Longrightarrow> wf e t"
  by (auto simp: setupPlayback_def Let_def wf_def cursor_ok_def blocks_ok_def stopped_ok_def
      clock_ok_def silent_def split: if_splits)

lemma wf_init: "wf e init_state"
  by (simp add: wf_def cursor_ok_def blocks_ok_def stopped_ok_def clock_ok_def silent_def
      init_state_def cache_size_def)

lemma next_file_stopped_closed:
  "playState s \<noteq> PLAYING \<Longrightarrow> next_file e s = Some (Inr t) \<Longrightarrow> \<not> is_open (soundfile t)"
  by (auto simp: next_file_def after_scan_def Let_def printTimeTotal_def printTimePlaying_def
      check_rate_def stopPlayback_def File_closed_def split: option.splits if_splits)

lemma wf_setup_board: "setup_board e init_state = Some (Inr t) \<Longrightarrow> wf e t"
proof -
  assume a: "setup_board e init_state = Some (Inr t)"
  show ?thesis
  proof (cases "card_ok e")
    case False
    with a show ?thesis using wf_init[of e] by (auto simp: setup_board_def wf_println)
  next
    case True
    let ?s2 = "(println (dec (unat (F_CPU e)) @ ''Card initialized'') init_state)
                 \<lparr>rootDir := \<lparr>d_open = True, cursor = 0\<rparr>\<rparr>"
    have w2: "wf e ?s2"
      by (simp add: wf_def cursor_ok_def blocks_ok_def stopped_ok_def clock_ok_def silent_def
          init_state_def cache_size_def println_def)
    have p2: "playState ?s2 \<noteq> PLAYING" by (simp add: init_state_def println_def)
    from a True obtain s3 where n: "next_file e ?s2 = Some (Inr s3)"
      and sp: "setupPlayback e s3 = Inr t"
      by (auto simp: setup_board_def Let_def split: option.splits sum.splits)
    from wf_next_file[OF w2 n] next_file_stopped_closed[OF p2 n] sp
    show ?thesis by (rule wf_setupPlayback)
  qed
qed

lemma reachable_wf: "reachable e s \<Longrightarrow> wf e s"
  by (induction rule: reachable.induct) (auto intro: wf_setup_board wf_step)

section \<open>Advance to the next file without a playable file\<close>

text \<open>
  Claim C8. When no entry of the root directory has a name ending in \<^verbatim>\<open>.WAV\<close>,
  \<^verbatim>\<open>next\<close> does not return: the scan rewinds the directory and starts over without
  end, from whatever state it is called in.
\<close>

theorem next_file_never_returns:
  "\<not> (\<exists>n \<in> set (root e). endsWith n ''.WAV'') \<Longrightarrow> next_file e s = None"
  by (auto simp: next_file_def Let_def split: option.splits dest!: scan_Some_match)

theorem next_file_never_returns_witness:
  "\<not> (\<exists>n \<in> set (root card_without_wav). endsWith n ''.WAV'')
   \<and> next_file card_without_wav init_state = None"
proof -
  have h: "\<not> (\<exists>n \<in> set (root card_without_wav). endsWith n ''.WAV'')"
    by (simp add: card_without_wav_def endsWith_def)
  from h next_file_never_returns[OF h, of init_state] show ?thesis by simp
qed

section \<open>The example card, from power-on\<close>

lemma run_reachable: "reachable e s \<Longrightarrow> run e evs s = Some (Inr t) \<Longrightarrow> reachable e t"
proof (induction evs arbitrary: s)
  case Nil
  then show ?case by simp
next
  case (Cons ev evs)
  then show ?case
    by (auto split: option.splits sum.splits intro: reachable.after)
qed

lemma run_append:
  "run e (evs @ evs') s =
     (case run e evs s of
        None \<Rightarrow> None
      | Some (Inl err) \<Rightarrow> Some (Inl err)
      | Some (Inr t) \<Rightarrow> run e evs' t)"
  by (induction evs arbitrary: s) (auto split: option.splits sum.splits)

lemmas run_eval =
  step_def line_def loop_pass_def refill_def poll_serial_def handle_command_def println_def
  dispatch_def char_at_def progress_def pausePlayback_def stopPlayback_def isr_def
  emit_sample_def swapBuffers_def deref_def block_def
  startPlayback_def File_available_def File_size_def File_position_def File_closed_def
  SD_open_def File_read_def Let_def overwrite_def header_sampleRate_def le32_def store_def
  printTimePlaying_def printTimeTotal_def check_rate_def cache_size_def

lemma setup_demo: "setup_board demo_card init_state = Some (Inr boot_demo)"
  by (simp add: setup_board_def demo_card_def init_state_def println_def next_file_def
      stopPlayback_def Let_def scan_hit endsWith_def after_scan_def printTimeTotal_def
      printTimePlaying_def check_rate_def setupPlayback_def boot_demo_def File_closed_def)

lemma play_demo: "run demo_card [line ''play'', Loop] boot_demo = Some (Inr playing_demo)"
  apply (simp add: step_def line_def loop_pass_def refill_def boot_demo_def poll_serial_def
      handle_command_def println_def dispatch_def)
  apply (simp add: startPlayback_def File_available_def File_closed_def SD_open_def demo_card_def
      File_read_def Let_def demo_wav_def overwrite_def header_sampleRate_def le32_def
      store_def cache_size_def playing_demo_def)
  done

lemma reachable_boot_demo: "reachable demo_card boot_demo"
  by (rule reachable.boot) (rule setup_demo)

lemma reachable_playing_demo: "reachable demo_card playing_demo"
  using reachable_boot_demo play_demo by (rule run_reachable)

lemma power_on_demo: "power_on demo_card evs = run demo_card evs boot_demo"
  by (simp add: power_on_def setup_demo)

lemma run_replicate_numeral:
  "run e (replicate (numeral k) ev) s =
     (case step e ev s of
        None \<Rightarrow> None
      | Some (Inl err) \<Rightarrow> Some (Inl err)
      | Some (Inr s1) \<Rightarrow> run e (replicate (pred_numeral k) ev) s1)"
  by (simp add: numeral_eq_Suc)

lemma replicate_numeral_Cons:
  "replicate (numeral k) v = v # replicate (numeral k - 1) v"
  by (simp add: numeral_eq_Suc)

lemma setup_long: "setup_board long_card init_state = Some (Inr boot_demo)"
  by (simp add: setup_board_def long_card_def init_state_def println_def next_file_def
      stopPlayback_def Let_def scan_hit endsWith_def after_scan_def printTimeTotal_def
      printTimePlaying_def check_rate_def setupPlayback_def boot_demo_def File_closed_def)

lemma play_long:
  "run long_card ([line ''play'', Loop, Loop] @ replicate 129 Tick) boot_demo
     = Some (Inr long_mid)"
  apply (simp add: run_eval run_append run_replicate_numeral boot_demo_def long_card_def
      long_wav_def long_mid_def nth_append)
  apply (simp add: replicate_numeral_Cons)
  done

lemma reachable_long_mid: "reachable long_card long_mid"
  using reachable.boot[OF setup_long] play_long by (rule run_reachable)

section \<open>The progress command\<close>

lemma File_size_stopPlayback: "File_size (soundfile (stopPlayback s)) = 0"
  by (simp add: stopPlayback_def Let_def File_size_def File_closed_def)

lemma progress_zero_size:
  "(progress s = Inl DivisionByZero) = (File_size (soundfile s) = 0)"
  by (simp add: progress_def)

lemma progress_value:
  "File_size (soundfile s) \<noteq> 0 \<Longrightarrow>
   progress s = Inr (File_position (soundfile s) * 100 div File_size (soundfile s))"
  by (simp add: progress_def)

lemma handle_progress:
  "command s = ''progress'' \<Longrightarrow> File_size (soundfile s) = 0 \<Longrightarrow>
   handle_command e s = Some (Inl DivisionByZero)"
  by (simp add: handle_command_def dispatch_progress println_def progress_def)

lemma handle_progress_prints:
  "command s = ''progress'' \<Longrightarrow> File_size (soundfile s) \<noteq> 0 \<Longrightarrow>
   handle_command e s
     = Some (Inr (s\<lparr>serial_out := serial_out s
                      @ [''[progress]'',
                         dec (unat (File_position (soundfile s) * 100
                                    div File_size (soundfile s)))],
                    command := ''''\<rparr>))"
  by (simp add: handle_command_def dispatch_progress println_def progress_def)

text \<open>
  Claim C10. The \<^verbatim>\<open>progress\<close> command computes the position, times 100 in 32-bit
  arithmetic, divided by the size of the sound file: with a size other than zero that
  quotient is its result and the command prints it in decimal after the echo. Nothing
  guards the divisor: the command ends in a division by zero exactly when the size is
  zero. A closed stream has size zero, so this happens after \<^verbatim>\<open>stopPlayback\<close> from any
  state, and on the example card both for the first command after power-on and for
  \<^verbatim>\<open>stop\<close> followed by \<^verbatim>\<open>progress\<close> while the file plays.
\<close>

theorem progress_divisor_zero:
  "(File_size (soundfile s) \<noteq> 0 \<longrightarrow>
      progress s = Inr (File_position (soundfile s) * 100 div File_size (soundfile s)))
   \<and> (command s = ''progress'' \<and> File_size (soundfile s) \<noteq> 0 \<longrightarrow>
        handle_command e s
          = Some (Inr (s\<lparr>serial_out := serial_out s
                           @ [''[progress]'',
                              dec (unat (File_position (soundfile s) * 100
                                         div File_size (soundfile s)))],
                         command := ''''\<rparr>)))
   \<and> (command s = ''progress'' \<and> File_size (soundfile s) = 0 \<longrightarrow>
        handle_command e s = Some (Inl DivisionByZero))
   \<and> (progress s = Inl DivisionByZero) = (File_size (soundfile s) = 0)
   \<and> File_size (soundfile (stopPlayback s)) = 0
   \<and> handle_command e ((stopPlayback s)\<lparr>command := ''progress''\<rparr>) = Some (Inl DivisionByZero)
   \<and> reachable demo_card boot_demo
   \<and> run demo_card [line ''progress'', Loop] boot_demo = Some (Inl DivisionByZero)
   \<and> reachable demo_card playing_demo
   \<and> run demo_card [line ''stop'', Loop, line ''progress'', Loop] playing_demo
       = Some (Inl DivisionByZero)"
proof -
  have a: "handle_command e ((stopPlayback s)\<lparr>command := ''progress''\<rparr>)
             = Some (Inl DivisionByZero)"
    by (rule handle_progress) (simp_all add: stopPlayback_def Let_def File_size_def File_closed_def)
  have b: "run demo_card [line ''progress'', Loop] boot_demo = Some (Inl DivisionByZero)"
    by (simp add: step_def line_def loop_pass_def refill_def boot_demo_def poll_serial_def
        handle_progress File_size_def File_closed_def)
  have c: "run demo_card [line ''stop'', Loop, line ''progress'', Loop] playing_demo
             = Some (Inl DivisionByZero)"
    by (simp add: run_eval playing_demo_def demo_wav_def)
  from a b c progress_zero_size[of s] progress_value[of s] handle_progress[of s e]
    handle_progress_prints[of s e] File_size_stopPlayback[of s]
    reachable_boot_demo reachable_playing_demo
  show ?thesis by blast
qed

text \<open>
  On the card with the 176-byte file, with the stream at position 166 the command prints
  166 * 100 / 176 = 94; in the state after setup the stream is closed and the command
  divides by zero.
\<close>

theorem progress_divisor_zero_witness:
  "command (long_mid\<lparr>command := ''progress'', soundfile := (soundfile long_mid)\<lparr>pos := 166\<rparr>\<rparr>)
     = ''progress''
   \<and> File_size (soundfile
         (long_mid\<lparr>command := ''progress'', soundfile := (soundfile long_mid)\<lparr>pos := 166\<rparr>\<rparr>))
       = 176
   \<and> File_position (soundfile
         (long_mid\<lparr>command := ''progress'', soundfile := (soundfile long_mid)\<lparr>pos := 166\<rparr>\<rparr>))
       = 166
   \<and> progress (long_mid\<lparr>command := ''progress'', soundfile := (soundfile long_mid)\<lparr>pos := 166\<rparr>\<rparr>)
       = Inr 94
   \<and> observe serial_out (handle_command long_card
         (long_mid\<lparr>command := ''progress'', soundfile := (soundfile long_mid)\<lparr>pos := 166\<rparr>\<rparr>))
       = Some (serial_out long_mid @ [''[progress]'', ''94''])
   \<and> command (boot_demo\<lparr>command := ''progress''\<rparr>) = ''progress''
   \<and> File_size (soundfile (boot_demo\<lparr>command := ''progress''\<rparr>)) = 0
   \<and> progress (boot_demo\<lparr>command := ''progress''\<rparr>) = Inl DivisionByZero
   \<and> handle_command demo_card (boot_demo\<lparr>command := ''progress''\<rparr>)
       = Some (Inl DivisionByZero)"
proof -
  let ?s = "long_mid\<lparr>command := ''progress'', soundfile := (soundfile long_mid)\<lparr>pos := 166\<rparr>\<rparr>"
  let ?b = "boot_demo\<lparr>command := ''progress''\<rparr>"
  have c: "command ?s = ''progress''" by simp
  have sz: "File_size (soundfile ?s) = 176"
    by (simp add: long_mid_def File_size_def long_wav_def)
  have ps: "File_position (soundfile ?s) = 166"
    by (simp add: long_mid_def File_position_def)
  have nz: "File_size (soundfile ?s) \<noteq> 0" using sz by simp
  have q: "File_position (soundfile ?s) * 100 div File_size (soundfile ?s) = 94"
    using sz ps by simp
  have d: "dec (unat (94 :: u32)) = ''94''"
    by code_simp
  note th = progress_divisor_zero[where s = ?s and e = long_card]
  from th nz have p: "progress ?s = Inr 94"
    unfolding q by blast
  from th c nz have "handle_command long_card ?s
      = Some (Inr (?s\<lparr>serial_out := serial_out ?s @ [''[progress]'', ''94''],
                     command := ''''\<rparr>))"
    unfolding q d by blast
  then have h: "observe serial_out (handle_command long_card ?s)
      = Some (serial_out long_mid @ [''[progress]'', ''94''])"
    by (simp add: observe_def)
  have cb: "command ?b = ''progress''" by simp
  have zb: "File_size (soundfile ?b) = 0"
    by (simp add: boot_demo_def File_size_def File_closed_def)
  note tb = progress_divisor_zero[where s = ?b and e = demo_card]
  from tb zb have pb: "progress ?b = Inl DivisionByZero" by blast
  from tb cb zb have hb: "handle_command demo_card ?b = Some (Inl DivisionByZero)" by blast
  from c sz ps p h cb zb pb hb show ?thesis by blast
qed

section \<open>Stopping\<close>

lemma startPlayback_PLAYING: "startPlayback e s = Inr t \<Longrightarrow> playState t = PLAYING"
  by (cases "File_available (soundfile s) = 0")
     (auto simp: startPlayback_open startPlayback_resume opened_def Let_def store_frame
      split: if_splits)

lemma stopped_silent_stopPlayback: "stopped_silent (stopPlayback s)"
  by (simp add: stopped_silent_def silent_def stopPlayback_def Let_def File_closed_def)

lemma stopped_silent_println: "stopped_silent (println l s) = stopped_silent s"
  by (simp add: stopped_silent_def silent_def println_def)

lemma stopped_silent_command: "stopped_silent (s\<lparr>command := c\<rparr>) = stopped_silent s"
  by (simp add: stopped_silent_def silent_def)

lemma stopped_silent_serial_in: "stopped_silent (s\<lparr>serial_in := c\<rparr>) = stopped_silent s"
  by (simp add: stopped_silent_def silent_def)

lemma stopped_silent_refill: "stopped_silent s \<Longrightarrow> refill s = Inr t \<Longrightarrow> stopped_silent t"
  by (auto simp: refill_def printTimePlaying_def check_rate_def Let_def File_read_def
      stopped_silent_def silent_def store_def overwrite_def split: if_splits blk.splits)

lemma stopped_silent_next_file:
  "playState s \<noteq> PLAYING \<Longrightarrow> next_file e s = Some (Inr t) \<Longrightarrow> stopped_silent t"
  by (auto simp: next_file_def after_scan_def Let_def printTimeTotal_def printTimePlaying_def
      check_rate_def stopPlayback_def File_closed_def stopped_silent_def silent_def
      split: option.splits if_splits)

lemma stopped_silent_dispatch:
  assumes w: "stopped_silent s" and d: "dispatch e s = Some (Inr t)"
    and st: "playState t = STOPPED"
  shows "stopped_silent t"
proof (cases "command s" rule: command_cases)
  case play
  with d st show ?thesis by (auto simp: dispatch_play dest: startPlayback_PLAYING)
next
  case pause
  with d st show ?thesis by (auto simp: dispatch_pause pausePlayback_def println_def)
next
  case stop
  with d show ?thesis by (auto simp: dispatch_stop stopped_silent_stopPlayback)
next
  case filename
  with d w show ?thesis by (auto simp: dispatch_filename stopped_silent_println)
next
  case playstate
  with d w show ?thesis by (auto simp: dispatch_playstate stopped_silent_println)
next
  case progress
  with d w show ?thesis
    by (auto simp: dispatch_progress stopped_silent_println split: sum.splits)
next
  case switch
  with d st show ?thesis by (auto simp: dispatch_switch dest: startPlayback_PLAYING)
next
  case nxt
  with d w show ?thesis
    by (auto simp: dispatch_next stopped_silent_println stopped_silent_def[of s]
        split: option.splits sum.splits dest!: stopped_silent_next_file[rotated])
next
  case togglepp
  with d w st show ?thesis
    by (auto simp: dispatch_togglepp stopped_silent_def[of s] split: if_splits
        dest: startPlayback_PLAYING)
next
  case other
  with d w show ?thesis by (auto simp: dispatch_unrecognized stopped_silent_println)
qed

lemma stopped_silent_handle_command:
  "stopped_silent s \<Longrightarrow> handle_command e s = Some (Inr t) \<Longrightarrow> playState t = STOPPED
   \<Longrightarrow> stopped_silent t"
  by (auto simp: handle_command_def stopped_silent_command stopped_silent_println
      split: option.splits sum.splits dest!: stopped_silent_dispatch[rotated])

lemma stopped_silent_poll_serial:
  "stopped_silent s \<Longrightarrow> poll_serial e s = Some (Inr t) \<Longrightarrow> playState t = STOPPED
   \<Longrightarrow> stopped_silent t"
  by (auto simp: poll_serial_def Let_def stopped_silent_command stopped_silent_serial_in
      split: if_splits prod.splits dest!: stopped_silent_handle_command[rotated])

lemma stopped_silent_step:
  assumes "stopped_silent s" and "step e ev s = Some (Inr t)" and "playState t = STOPPED"
  shows "stopped_silent t"
proof (cases ev)
  case Tick
  with assms show ?thesis by (auto simp: step_def isr_def stopped_silent_def silent_def)
next
  case Loop
  with assms(2) obtain s1 where r: "refill s = Inr s1" and p: "poll_serial e s1 = Some (Inr t)"
    by (auto simp: step_def loop_pass_def split: sum.splits)
  from stopped_silent_refill[OF assms(1) r] p assms(3) show ?thesis
    by (rule stopped_silent_poll_serial)
next
  case (Recv cs)
  with assms show ?thesis by (auto simp: step_def stopped_silent_serial_in)
qed

lemma stopped_run_silent: "stopped_run e s t \<Longrightarrow> stopped_silent s \<Longrightarrow> stopped_silent t"
  by (induction rule: stopped_run.induct) (auto intro: stopped_silent_step)

text \<open>
  Claim C3. After \<^verbatim>\<open>stopPlayback\<close>, called in any state, the playback state is
  \<open>STOPPED\<close>, the stream is closed, both blocks hold 128 zero bytes and the drain
  cursor is at the start of the front block. Both blocks stay all zero, and the stream
  closed, through every run of ticks, loop passes and received bytes that stays in
  \<open>STOPPED\<close>.
\<close>

theorem stopPlayback_silences:
  "playState (stopPlayback s) = STOPPED
   \<and> \<not> is_open (soundfile (stopPlayback s))
   \<and> buf1 (stopPlayback s) = replicate 128 0
   \<and> buf2 (stopPlayback s) = replicate 128 0
   \<and> readBuf (stopPlayback s) = (frontBuf (stopPlayback s), 0)
   \<and> frontBuf (stopPlayback s) = frontBuf s
   \<and> (\<forall>t. stopped_run e (stopPlayback s) t \<longrightarrow>
          buf1 t = replicate 128 0 \<and> buf2 t = replicate 128 0 \<and> \<not> is_open (soundfile t))"
proof -
  have "\<forall>t. stopped_run e (stopPlayback s) t \<longrightarrow> stopped_silent t"
    using stopped_run_silent stopped_silent_stopPlayback by blast
  then show ?thesis
    by (simp add: stopped_silent_def silent_def cache_size_def)
       (simp add: stopPlayback_def Let_def File_closed_def cache_size_def)
qed

theorem stopPlayback_silences_witness:
  "playState playing_demo = PLAYING
   \<and> stopped_run demo_card (stopPlayback playing_demo)
        ((stopPlayback playing_demo)\<lparr>pwm := [0, 0]\<rparr>)
   \<and> buf1 ((stopPlayback playing_demo)\<lparr>pwm := [0, 0]\<rparr>) = replicate 128 0
   \<and> hd (buf1 playing_demo) = 0x74"
proof -
  have "step demo_card Tick (stopPlayback playing_demo)
          = Some (Inr ((stopPlayback playing_demo)\<lparr>pwm := [0, 0]\<rparr>))"
    by (simp add: step_def isr_def stopPlayback_def Let_def playing_demo_def)
  then have r: "stopped_run demo_card (stopPlayback playing_demo)
                  ((stopPlayback playing_demo)\<lparr>pwm := [0, 0]\<rparr>)"
    by (rule stopped_run.further[OF stopped_run.here]) (simp add: stopPlayback_def Let_def)
  have n: "hd (buf1 playing_demo) = 0x74"
    by (simp add: playing_demo_def)
  from r n stopPlayback_silences[of playing_demo demo_card] show ?thesis
    by (simp add: playing_demo_def)
qed

section \<open>Consuming a sample\<close>

lemma of_nat_neq32: "k < n \<Longrightarrow> n < 2 ^ 32 \<Longrightarrow> (of_nat k :: u32) \<noteq> of_nat n"
  by (simp add: word_of_nat_eq_iff take_bit_nat_eq_self)

lemma emit_sample_ok:
  assumes "cursor_ok s" and "blocks_ok s"
  shows "\<exists>t. emit_sample s = Inr t \<and> cursor_ok t \<and> blocks_ok t
           \<and> sample t = sample s + 1 \<and> length (pwm t) = length (pwm s) + 1
           \<and> playState t = playState s \<and> soundfile t = soundfile s
           \<and> sampleRate t = sampleRate s \<and> serial_in t = serial_in s
           \<and> filename t = filename s \<and> rootDir t = rootDir s
           \<and> (if snd (readBuf s) = cache_size
               then frontBuf t = backBuf s \<and> backBuf t = frontBuf s
                    \<and> readBuf t = (backBuf s, 1)
                    \<and> pwm t = block s (backBuf s) ! 0 # pwm s
               else frontBuf t = frontBuf s \<and> backBuf t = backBuf s
                    \<and> readBuf t = (frontBuf s, snd (readBuf s) + 1)
                    \<and> pwm t = block s (frontBuf s) ! snd (readBuf s) # pwm s)"
proof (cases "snd (readBuf s) = cache_size")
  case True
  with assms have rb: "readBuf s = (frontBuf s, cache_size)"
    by (cases "readBuf s") (simp add: cursor_ok_def)
  with assms show ?thesis
    by (cases "backBuf s")
       (simp_all add: emit_sample_def swapBuffers_def Let_def deref_def block_def cursor_ok_def
        blocks_ok_def cache_size_def)
next
  case False
  with assms have rb: "readBuf s \<noteq> (frontBuf s, cache_size)" by auto
  from False assms have lt: "snd (readBuf s) < cache_size" by (simp add: cursor_ok_def)
  with assms rb False show ?thesis
    by (cases "frontBuf s")
       (simp_all add: emit_sample_def Let_def deref_def block_def cursor_ok_def
        blocks_ok_def)
qed




text \<open>
  Claim C2. In every state the board reaches, the drain cursor points into the front block
  at an offset between 0 and 128, and both blocks have their 128 bytes. A tick that
  consumes a sample (playing, counter not at the file size) never reads at offset 128:
  with the cursor there it first swaps the blocks and reads byte 0 of the new front
  block, otherwise it reads the byte under the cursor; either way the cursor then
  stands one past the byte read.
\<close>

theorem cursor_stays_in_front_block:
  assumes "reachable e s"
  shows "fst (readBuf s) = frontBuf s \<and> snd (readBuf s) \<le> 128
         \<and> length (buf1 s) = 128 \<and> length (buf2 s) = 128
         \<and> (playState s = PLAYING \<and> sample s \<noteq> File_size (soundfile s) \<longrightarrow>
              (\<exists>t. isr e s = Some (Inr t) \<and>
                 (if snd (readBuf s) = 128
                  then frontBuf t = backBuf s \<and> backBuf t = frontBuf s
                       \<and> readBuf t = (backBuf s, 1)
                       \<and> pwm t = block s (backBuf s) ! 0 # pwm s
                  else frontBuf t = frontBuf s \<and> backBuf t = backBuf s
                       \<and> readBuf t = (frontBuf s, snd (readBuf s) + 1)
                       \<and> pwm t = block s (frontBuf s) ! snd (readBuf s) # pwm s)))"
proof -
  from assms have w: "wf e s" by (rule reachable_wf)
  then have c: "cursor_ok s" and b: "blocks_ok s" by (simp_all add: wf_def)
  from emit_sample_ok[OF c b] obtain t where
    t: "emit_sample s = Inr t"
       "if snd (readBuf s) = cache_size
        then frontBuf t = backBuf s \<and> backBuf t = frontBuf s
             \<and> readBuf t = (backBuf s, 1)
             \<and> pwm t = block s (backBuf s) ! 0 # pwm s
        else frontBuf t = frontBuf s \<and> backBuf t = backBuf s
             \<and> readBuf t = (frontBuf s, snd (readBuf s) + 1)
             \<and> pwm t = block s (frontBuf s) ! snd (readBuf s) # pwm s"
    by blast
  have "playState s = PLAYING \<and> sample s \<noteq> File_size (soundfile s) \<longrightarrow>
          isr e s = Some (Inr t)"
    using t(1) by (simp add: isr_def)
  with t(2) c b show ?thesis
    unfolding cursor_ok_def blocks_ok_def cache_size_def by blast
qed

theorem cursor_stays_in_front_block_witness:
  "reachable demo_card playing_demo
   \<and> playState playing_demo = PLAYING
   \<and> sample playing_demo \<noteq> File_size (soundfile playing_demo)
   \<and> readBuf playing_demo = (Buf1, 0)
   \<and> observe pwm (isr demo_card playing_demo) = Some [0x74, 0]
   \<and> observe readBuf (isr demo_card playing_demo) = Some (Buf1, 1)"
proof -
  have "observe pwm (isr demo_card playing_demo) = Some [0x74, 0]
        \<and> observe readBuf (isr demo_card playing_demo) = Some (Buf1, 1)"
    using cursor_stays_in_front_block[OF reachable_playing_demo]
    by (auto simp: observe_def playing_demo_def File_size_def demo_wav_def block_def)
  then show ?thesis
    using reachable_playing_demo
    by (simp add: playing_demo_def File_size_def demo_wav_def)
qed

section \<open>Playing a file to its end\<close>











lemma opened_frame:
  "pwm (opened e s) = pwm s" "filename (opened e s) = filename s"
  "sample (opened e s) = 0" "playState (opened e s) = PLAYING"
  "serial_out (opened e s) = serial_out s" "rootDir (opened e s) = rootDir s"
  by (simp_all add: opened_def Let_def store_frame)



















section \<open>The first tick after starting\<close>

lemma stopped_start_opened:
  assumes "\<not> is_open (soundfile s)" and "map_of (card e) (filename s) = Some bs"
    and "declared_rate e bs \<noteq> 0"
  shows "startPlayback e s = Inr (opened e s)"
proof -
  have "header_sampleRate (overwrite (fst (File_read (SD_open e (filename s)) 38)) (uninit e))
          = declared_rate e bs"
    using assms(2) by (simp add: declared_rate_def SD_open_def File_read_def)
  with assms show ?thesis
    by (simp add: startPlayback_open File_available_closed)
qed

lemma opened_soundfile:
  assumes "map_of (card e) (filename s) = Some bs"
  shows "is_open (soundfile (opened e s))" and "content (soundfile (opened e s)) = bs"
  using assms
  by (simp_all add: opened_def Let_def store_frame SD_open_def File_read_def)

lemma opened_front:
  assumes "map_of (card e) (filename s) = Some bs"
  shows "block (opened e s) (frontBuf s)
           = overwrite (take cache_size (drop 38 bs)) (block s (frontBuf s))"
  using assms
  by (cases "frontBuf s")
     (simp_all add: opened_def Let_def store_def block_def SD_open_def File_read_def min_def)

lemma opened_cursor:
  "readBuf (opened e s) = readBuf s" "frontBuf (opened e s) = frontBuf s"
  by (simp_all add: opened_def Let_def store_frame)

lemma primed_nth:
  "length old = cache_size \<Longrightarrow> i < cache_size \<Longrightarrow>
   overwrite (take cache_size (drop 38 bs)) old ! i
     = (if 38 + i < length bs then bs ! (38 + i) else old ! i)"
  by (auto simp: overwrite_def cache_size_def nth_append)

text \<open>
  The tick that follows an opening \<^verbatim>\<open>startPlayback\<close> reads under the cursor as it
  stood before the call, in a front block that now starts with the bytes of the file from
  offset 38 on.
\<close>

lemma tick_after_open:
  assumes av: "File_available (soundfile s) = 0"
    and bo: "blocks_ok s" and rb: "readBuf s = (frontBuf s, i)" and i: "i < cache_size"
    and f: "map_of (card e) (filename s) = Some bs"
    and len: "0 < length bs" "length bs < 2 ^ 32"
    and r: "declared_rate e bs \<noteq> 0"
  shows "\<exists>u. startPlayback e s = Inr (opened e s)
           \<and> isr e (opened e s) = Some (Inr u)
           \<and> pwm u = (if 38 + i < length bs then bs ! (38 + i)
                       else block s (frontBuf s) ! i) # pwm s"
proof -
  let ?t = "opened e s"
  have "header_sampleRate (overwrite (fst (File_read (SD_open e (filename s)) 38)) (uninit e))
          = declared_rate e bs"
    using f by (simp add: declared_rate_def SD_open_def File_read_def)
  with av r have a: "startPlayback e s = Inr ?t"
    by (simp add: startPlayback_open)
  have "(of_nat 0 :: u32) \<noteq> of_nat (length bs)"
    using len by (rule of_nat_neq32)
  then have sz: "sample ?t \<noteq> File_size (soundfile ?t)"
    by (simp add: opened_frame File_size_def opened_soundfile[OF f])
  from bo have l: "length (block s (frontBuf s)) = cache_size"
    by (cases "frontBuf s"; simp add: blocks_ok_def block_def)
  have b0: "block ?t (frontBuf s) ! i
              = (if 38 + i < length bs then bs ! (38 + i) else block s (frontBuf s) ! i)"
    by (simp add: opened_front[OF f] primed_nth[OF l i])
  have bl: "length (block ?t (frontBuf s)) = cache_size"
    using l by (simp add: opened_front[OF f] length_overwrite)
  let ?v = "if 38 + i < length bs then bs ! (38 + i) else block s (frontBuf s) ! i"
  have e: "emit_sample ?t = Inr (?t\<lparr>pwm := ?v # pwm ?t, readBuf := (frontBuf s, i + 1),
                                      sample := sample ?t + 1\<rparr>)"
    using b0 bl i
    by (simp add: emit_sample_def deref_def opened_cursor rb Let_def)
  from sz e have "isr e ?t = Some (Inr (?t\<lparr>pwm := ?v # pwm ?t, readBuf := (frontBuf s, i + 1),
                                      sample := sample ?t + 1\<rparr>))"
    by (simp add: isr_def opened_frame)
  with a show ?thesis
    by (simp add: opened_frame)
qed






section \<open>The sample clock\<close>



lemma opened_clock:
  assumes "map_of (card e) (filename s) = Some bs"
  shows "sampleRate (opened e s) = declared_rate e bs"
    and "OCR1A (opened e s) = ucast (F_CPU e div declared_rate e bs)"
  using assms
  by (simp_all add: opened_def Let_def store_frame SD_open_def File_read_def declared_rate_def)


text \<open>
  The state that an opening \<^verbatim>\<open>startPlayback\<close> leaves is one in which the file plays
  from its start.
\<close>

lemma opened_playing_at:
  assumes "cursor_ok s" and "blocks_ok s" and f: "map_of (card e) (filename s) = Some bs"
    and "length bs < 2 ^ 32" and "declared_rate e bs \<noteq> 0" and "serial_in s = []"
  shows "playing_at (length bs) 0 (opened e s)"
proof -
  have c: "cursor_ok (opened e s)"
    using assms(1) by (simp add: cursor_ok_def opened_cursor)
  have b: "blocks_ok (opened e s)"
    using assms(2)
    by (simp add: opened_def Let_def blocks_ok_def store_def length_overwrite
        File_read_length split: blk.splits)
  have r: "sampleRate (opened e s) \<noteq> 0"
    using assms(5) by (simp add: opened_clock[OF f])
  have i: "serial_in (opened e s) = []"
    using assms(6) by (simp add: opened_def Let_def store_frame)
  from c b r i assms(4) show ?thesis
    by (simp add: playing_at_def opened_frame opened_soundfile[OF f])
qed




text \<open>
  A rate whose quotient does not fit the register: on a card whose file declares 100 Hz,
  after \<^verbatim>\<open>play\<close> the register holds 28928, which is 16000000 / 100 = 160000 modulo
  65536.
\<close>

lemma clock_truncated:
  "observe filename (power_on slow_card [line ''play'', Loop]) = Some ''A.WAV''
   \<and> observe sampleRate (power_on slow_card [line ''play'', Loop]) = Some 100
   \<and> observe OCR1A (power_on slow_card [line ''play'', Loop]) = Some 28928
   \<and> unat (F_CPU slow_card) div 100 = 160000"
  by (simp add: power_on_def setup_board_def slow_card_def slow_wav_def init_state_def next_file_def
      scan_hit endsWith_def after_scan_def setupPlayback_def run_eval observe_def)

section \<open>Feedback on the serial line\<close>







section \<open>Starting again with the whole file already read\<close>

lemma resume_in_place:
  "playState s = PLAYING \<Longrightarrow> File_available (soundfile s) \<noteq> 0 \<Longrightarrow>
   startPlayback e (pausePlayback s) = Inr s \<and> startPlayback e s = Inr s"
  by (simp add: startPlayback_def pausePlayback_def)

text \<open>
  Once the whole file has been read the stream reports no byte available, and
  \<^verbatim>\<open>startPlayback\<close> opens the named file again: the counter is back at zero and the
  front block holds the first 128 bytes after the header again, wherever the cursor
  stands.
\<close>

lemma File_available_at_end:
  "is_open f \<Longrightarrow> pos f = length (content f) \<Longrightarrow> File_available f = 0"
  by (simp add: File_available_def File_size_def File_position_def)

lemma restart_when_fully_read:
  assumes "is_open (soundfile s)" and "pos (soundfile s) = length (content (soundfile s))"
    and f: "map_of (card e) (filename s) = Some bs" and r: "declared_rate e bs \<noteq> 0"
  shows "startPlayback e (pausePlayback s) = Inr (opened e (pausePlayback s))"
    and "sample (opened e (pausePlayback s)) = 0"
    and "block (opened e (pausePlayback s)) (frontBuf s)
           = overwrite (take cache_size (drop 38 bs)) (block s (frontBuf s))"
    and "readBuf (opened e (pausePlayback s)) = readBuf s"
proof -
  let ?p = "pausePlayback s"
  have av: "File_available (soundfile ?p) = 0"
    using assms(1,2) by (simp add: pausePlayback_def File_available_at_end)
  have fp: "map_of (card e) (filename ?p) = Some bs"
    using f by (simp add: pausePlayback_def)
  have "header_sampleRate (overwrite (fst (File_read (SD_open e (filename ?p)) 38)) (uninit e))
          = declared_rate e bs"
    using fp by (simp add: declared_rate_def SD_open_def File_read_def)
  with av r show "startPlayback e ?p = Inr (opened e ?p)"
    by (simp add: startPlayback_open)
  show "sample (opened e ?p) = 0" by (simp add: opened_frame)
  have "block (opened e ?p) (frontBuf ?p)
          = overwrite (take cache_size (drop 38 bs)) (block ?p (frontBuf ?p))"
    using fp by (rule opened_front)
  then show "block (opened e ?p) (frontBuf s)
          = overwrite (take cache_size (drop 38 bs)) (block s (frontBuf s))"
    by (cases "frontBuf s") (simp_all add: pausePlayback_def block_def)
  show "readBuf (opened e ?p) = readBuf s"
    by (simp add: opened_cursor pausePlayback_def)
qed

text \<open>
  The tick after a pause and resume with the whole file read: with the cursor at offset
  \<open>i\<close> of the front block it writes the byte at offset \<open>38 + i\<close> of the file, a byte
  of the first block of the file, whichever block was draining before the pause.
\<close>

lemma tick_after_resume:
  assumes "is_open (soundfile s)" and "pos (soundfile s) = length (content (soundfile s))"
    and bo: "blocks_ok s" and rb: "readBuf s = (frontBuf s, i)" and i: "38 + i < length bs"
      "i < cache_size"
    and f: "map_of (card e) (filename s) = Some bs" and len: "length bs < 2 ^ 32"
    and r: "declared_rate e bs \<noteq> 0"
  shows "\<exists>t u. startPlayback e (pausePlayback s) = Inr t \<and> sample t = 0
           \<and> isr e t = Some (Inr u) \<and> pwm u = bs ! (38 + i) # pwm s"
proof -
  let ?p = "pausePlayback s"
  have av: "File_available (soundfile ?p) = 0"
    using assms(1,2) by (simp add: pausePlayback_def File_available_at_end)
  have bo': "blocks_ok ?p" using bo by (simp add: pausePlayback_def blocks_ok_def)
  have rb': "readBuf ?p = (frontBuf ?p, i)" using rb by (simp add: pausePlayback_def)
  have f': "map_of (card e) (filename ?p) = Some bs" using f by (simp add: pausePlayback_def)
  from i(1) have pos: "0 < length bs" by (cases bs) simp_all
  from tick_after_open[OF av bo' rb' i(2) f' pos len r] i(1) show ?thesis
    by (auto simp: opened_frame pausePlayback_def)
qed

text \<open>
  Claim C5 at a failing input. On the card with the 176-byte file, after \<^verbatim>\<open>play\<close>, a
  refill and 129 ticks, the whole file has been read and the stream reports no byte
  available. The register holds sample 129 of the stream, \<open>0x55\<close>, and the next tick
  would write \<open>0x55\<close> again with the counter at 130. After \<^verbatim>\<open>pause\<close> and
  \<^verbatim>\<open>play\<close> the file has been opened again: the next tick writes \<open>0x61\<close>, the byte
  at offset 39 of the file, and the counter is 1.
\<close>

theorem resume_repeats_sample:
  "reachable long_card long_mid
   \<and> playState long_mid = PLAYING \<and> sample long_mid = 129 \<and> duty long_mid = 0x55
   \<and> observe duty (run long_card [Tick] long_mid) = Some 0x55
   \<and> observe sample (run long_card [Tick] long_mid) = Some 130
   \<and> observe playState (run long_card [line ''pause'', Loop] long_mid) = Some PAUSED
   \<and> observe duty (run long_card [line ''pause'', Loop, line ''play'', Loop, Tick] long_mid)
       = Some 0x61
   \<and> observe sample (run long_card [line ''pause'', Loop, line ''play'', Loop, Tick] long_mid)
       = Some 1"
proof -
  have "duty long_mid = 0x55"
    by (simp add: long_mid_def duty_def replicate_numeral_Cons)
  moreover have "observe duty (run long_card [Tick] long_mid) = Some 0x55
   \<and> observe sample (run long_card [Tick] long_mid) = Some 130
   \<and> observe playState (run long_card [line ''pause'', Loop] long_mid) = Some PAUSED
   \<and> observe duty (run long_card [line ''pause'', Loop, line ''play'', Loop, Tick] long_mid)
       = Some 0x61
   \<and> observe sample (run long_card [line ''pause'', Loop, line ''play'', Loop, Tick] long_mid)
       = Some 1"
    by (simp add: run_eval long_mid_def long_card_def long_wav_def observe_def duty_def
        nth_append)
  ultimately show ?thesis
    using reachable_long_mid by (simp add: long_mid_def)
qed

text \<open>
  The same on the example card, whose file of 46 bytes is read whole by
  \<^verbatim>\<open>startPlayback\<close>: after \<^verbatim>\<open>play\<close> and one tick the counter is 1, \<^verbatim>\<open>pause\<close>
  leaves it at 1, and the \<^verbatim>\<open>play\<close> that resumes sets it to 0.
\<close>

lemma resume_restarts_counter:
  "observe playState (power_on demo_card [line ''play'', Loop, Tick]) = Some PLAYING
   \<and> observe sample (power_on demo_card [line ''play'', Loop, Tick]) = Some 1
   \<and> observe playState (power_on demo_card [line ''play'', Loop, Tick, line ''pause'', Loop])
       = Some PAUSED
   \<and> observe sample (power_on demo_card [line ''play'', Loop, Tick, line ''pause'', Loop])
       = Some 1
   \<and> observe playState (power_on demo_card
         [line ''play'', Loop, Tick, line ''pause'', Loop, line ''play'', Loop]) = Some PLAYING
   \<and> observe sample (power_on demo_card
         [line ''play'', Loop, Tick, line ''pause'', Loop, line ''play'', Loop]) = Some 0"
  unfolding power_on_demo
  by (simp add: run_eval boot_demo_def demo_card_def demo_wav_def observe_def)

text \<open>
  Claim C6 at a failing input. In the state of the card with the 176-byte file after 129
  ticks, which is \<open>PLAYING\<close> with the whole file read, \<^verbatim>\<open>startPlayback\<close> opens the
  file again: the counter goes from 129 to 0, the stream position from 176 to 166, and
  the front block, which held the second block of the file, holds the first. On the
  example card, one tick after \<^verbatim>\<open>play\<close>, the call sets the counter from 1 to 0.
\<close>

theorem start_while_playing_restarts:
  "reachable long_card long_mid \<and> playState long_mid = PLAYING
   \<and> startPlayback long_card long_mid
       = Inr (long_mid\<lparr>sample := 0, buf2 := buf1 long_mid,
                       soundfile := (soundfile long_mid)\<lparr>pos := 166\<rparr>\<rparr>)
   \<and> run demo_card [Tick] playing_demo
       = Some (Inr (playing_demo\<lparr>sample := 1, readBuf := (Buf1, 1), pwm := [0x74, 0]\<rparr>))
   \<and> playState (playing_demo\<lparr>sample := 1, readBuf := (Buf1, 1), pwm := [0x74, 0]\<rparr>) = PLAYING
   \<and> startPlayback demo_card (playing_demo\<lparr>sample := 1, readBuf := (Buf1, 1), pwm := [0x74, 0]\<rparr>)
       = Inr (playing_demo\<lparr>sample := 0, readBuf := (Buf1, 1), pwm := [0x74, 0]\<rparr>)"
proof -
  have "startPlayback long_card long_mid
       = Inr (long_mid\<lparr>sample := 0, buf2 := buf1 long_mid,
                       soundfile := (soundfile long_mid)\<lparr>pos := 166\<rparr>\<rparr>)"
    by (simp add: run_eval long_mid_def long_card_def long_wav_def)
  moreover have "run demo_card [Tick] playing_demo
       = Some (Inr (playing_demo\<lparr>sample := 1, readBuf := (Buf1, 1), pwm := [0x74, 0]\<rparr>))
   \<and> startPlayback demo_card (playing_demo\<lparr>sample := 1, readBuf := (Buf1, 1), pwm := [0x74, 0]\<rparr>)
       = Inr (playing_demo\<lparr>sample := 0, readBuf := (Buf1, 1), pwm := [0x74, 0]\<rparr>)"
    by (simp add: run_eval playing_demo_def demo_card_def demo_wav_def)
  ultimately show ?thesis
    using reachable_long_mid by (simp add: long_mid_def playing_demo_def)
qed

end
